theory Spec2Isabelle
  imports Complex_Main "HOL-Library.Product_Lexorder"
begin

section \<open>JSON values as Python sees them\<close>

text \<open>
  A value produced by \<^verbatim>\<open>json.loads\<close> / \<^verbatim>\<open>Response.json()\<close>:
  \<^verbatim>\<open>None\<close>, a bool, an int, a finite float (carried by its exact rational value),
  a str, a list, or a dict. A dict is an association list in insertion order; its keys are
  strings. Characters are the 8-bit \<^typ>\<open>char\<close> of HOL.
\<close>

datatype json =
    JNull
  | JBool bool
  | JInt int
  | JFloat rat
  | JStr string
  | JArr "json list"
  | JObj "(string \<times> json) list"

section \<open>Tree Cleaner (scraper/cleaner.py)\<close>

text \<open>
  \<^verbatim>\<open>JsonCleaner.clean_data\<close>, with \<^verbatim>\<open>self.keys_to_remove\<close> as the first argument.
  The source mutates the tree in place and returns it; a tree loaded from a file shares no
  node, so the returned value is a function of the argument. For a dict, every key of the
  removal set is deleted and the value of every other key is cleaned; for a list, every item
  is cleaned; anything else is returned as it is.
\<close>

fun clean_data :: "string set \<Rightarrow> json \<Rightarrow> json" where
  "clean_data K (JObj kvs) =
     JObj (map (\<lambda>kv. (fst kv, clean_data K (snd kv))) (filter (\<lambda>kv. fst kv \<notin> K) kvs))"
| "clean_data K (JArr xs) = JArr (map (clean_data K) xs)"
| "clean_data K v = v"

text \<open>Every dict key that occurs in a tree, at any depth.\<close>

fun all_keys :: "json \<Rightarrow> string set" where
  "all_keys (JObj kvs) = fst ` set kvs \<union> (\<Union>kv \<in> set kvs. all_keys (snd kv))"
| "all_keys (JArr xs) = (\<Union>x \<in> set xs. all_keys x)"
| "all_keys v = {}"

definition scenario_b_input :: json where
  "scenario_b_input =
     JObj [(''teams'', JObj [(''home'', JObj [(''slug'', JStr ''abc''), (''name'', JStr ''X'')])])]"

definition scenario_b_output :: json where
  "scenario_b_output = JObj [(''teams'', JObj [(''home'', JObj [(''name'', JStr ''X'')])])]"

section \<open>Python operations on JSON values\<close>

text \<open>The exceptions that the modelled code can raise.\<close>

datatype exn =
    AttributeError
  | TypeError
  | ValueError
  | UnboundLocalError
  | HTTPError
  | ConnectionError
  | OperationalError
  | InterfaceError

text \<open>Sequencing of computations that may raise: the first exception ends the computation.\<close>

definition ebind :: "exn + 'a \<Rightarrow> ('a \<Rightarrow> exn + 'b) \<Rightarrow> exn + 'b" where
  "ebind m f = (case m of Inl e \<Rightarrow> Inl e | Inr x \<Rightarrow> f x)"

text \<open>Truth value of an object: \<^verbatim>\<open>None\<close>, \<^verbatim>\<open>False\<close>, zero and empty containers are false.\<close>

fun truthy :: "json \<Rightarrow> bool" where
  "truthy JNull = False"
| "truthy (JBool b) = b"
| "truthy (JInt n) = (n \<noteq> 0)"
| "truthy (JFloat r) = (r \<noteq> 0)"
| "truthy (JStr s) = (s \<noteq> [])"
| "truthy (JArr xs) = (xs \<noteq> [])"
| "truthy (JObj kvs) = (kvs \<noteq> [])"

text \<open>\<^verbatim>\<open>a or b\<close> on two values already computed.\<close>

definition py_or :: "json \<Rightarrow> json \<Rightarrow> json" where
  "py_or a b = (if truthy a then a else b)"

text \<open>\<^verbatim>\<open>a or <expr>\<close>, where the right operand is evaluated only when \<open>a\<close> is false.\<close>

definition or_else :: "json \<Rightarrow> (exn + json) \<Rightarrow> exn + json" where
  "or_else a m = (if truthy a then Inr a else m)"

text \<open>
  \<^verbatim>\<open>d.get(k, default)\<close> and \<^verbatim>\<open>d.get(k)\<close>: only a dict has the method \<^verbatim>\<open>get\<close>.
\<close>

definition py_get_default :: "json \<Rightarrow> string \<Rightarrow> json \<Rightarrow> exn + json" where
  "py_get_default d k dflt =
     (case d of
        JObj kvs \<Rightarrow> Inr (case map_of kvs k of Some v \<Rightarrow> v | None \<Rightarrow> dflt)
      | _ \<Rightarrow> Inl AttributeError)"

definition py_get :: "json \<Rightarrow> string \<Rightarrow> exn + json" where
  "py_get d k = py_get_default d k JNull"

text \<open>
  \<^verbatim>\<open>for x in v\<close>: a list yields its items, a dict its keys, a str its characters;
  any other value is not iterable.
\<close>

definition py_iter :: "json \<Rightarrow> exn + json list" where
  "py_iter v =
     (case v of
        JArr xs \<Rightarrow> Inr xs
      | JObj kvs \<Rightarrow> Inr (map (\<lambda>kv. JStr (fst kv)) kvs)
      | JStr s \<Rightarrow> Inr (map (\<lambda>c. JStr [c]) s)
      | _ \<Rightarrow> Inl TypeError)"

text \<open>\<^verbatim>\<open>d[k] = v\<close> on a dict: an existing key keeps its place, a new key goes last.\<close>

fun dict_set :: "(string \<times> json) list \<Rightarrow> string \<Rightarrow> json \<Rightarrow> (string \<times> json) list" where
  "dict_set [] k v = [(k, v)]"
| "dict_set ((k', v') # kvs) k v =
     (if k' = k then (k, v) # kvs else (k', v') # dict_set kvs k v)"

text \<open>\<^verbatim>\<open>s.split(c)\<close> for a one-character separator.\<close>

fun split_on :: "char \<Rightarrow> string \<Rightarrow> string list" where
  "split_on c [] = [[]]"
| "split_on c (x # xs) =
     (if x = c then [] # split_on c xs
      else (case split_on c xs of [] \<Rightarrow> [[x]] | w # ws \<Rightarrow> (x # w) # ws))"

text \<open>\<^verbatim>\<open>s.strip()\<close>: the characters below 256 for which \<^verbatim>\<open>str.isspace\<close> holds.\<close>

definition is_space :: "char \<Rightarrow> bool" where
  "is_space c =
     (let n = (of_char c :: nat)
      in (9 \<le> n \<and> n \<le> 13) \<or> (28 \<le> n \<and> n \<le> 32) \<or> n = 133 \<or> n = 160)"

definition strip :: "string \<Rightarrow> string" where
  "strip s = rev (dropWhile is_space (rev (dropWhile is_space s)))"

definition py_strip :: "json \<Rightarrow> exn + string" where
  "py_strip v = (case v of JStr s \<Rightarrow> Inr (strip s) | _ \<Rightarrow> Inl AttributeError)"

section \<open>Match Normalizer (scraper/scraper.py)\<close>

text \<open>\<^verbatim>\<open>safe_get(d, path, default)\<close>: walks the dotted path while the current value is a
  dict that has the next part, and returns the default otherwise. It never raises.\<close>

fun safe_get_parts :: "json \<Rightarrow> string list \<Rightarrow> json \<Rightarrow> json" where
  "safe_get_parts cur [] dflt = cur"
| "safe_get_parts cur (part # parts) dflt =
     (case cur of
        JObj kvs \<Rightarrow>
          (case map_of kvs part of
             Some v \<Rightarrow> safe_get_parts v parts dflt
           | None \<Rightarrow> dflt)
      | _ \<Rightarrow> dflt)"

definition safe_get :: "json \<Rightarrow> string \<Rightarrow> json \<Rightarrow> json" where
  "safe_get d path dflt = safe_get_parts d (split_on CHR ''.'' path) dflt"

text \<open>The dataclass \<^verbatim>\<open>TeamRef\<close> (its fields are \<^verbatim>\<open>id\<close>, \<^verbatim>\<open>name\<close>, \<^verbatim>\<open>slug\<close>).\<close>

record TeamRef =
  team_id :: json
  team_name :: json
  team_slug :: json

definition extract_team_ref :: "json \<Rightarrow> exn + TeamRef" where
  "extract_team_ref team =
     ebind (py_get team ''id'') (\<lambda>i.
     ebind (py_get team ''name'') (\<lambda>n.
     ebind (or_else n (py_get team ''shortName'')) (\<lambda>nm.
     ebind (py_get team ''slug'') (\<lambda>s.
     Inr \<lparr>team_id = i, team_name = nm, team_slug = s\<rparr>))))"

text \<open>
  \<^verbatim>\<open>flatten_team_stats\<close>. The accumulator \<^verbatim>\<open>out\<close> is the pair of its \<^verbatim>\<open>"home"\<close> and
  \<^verbatim>\<open>"away"\<close> dicts. \<open>flatten_items\<close> is the inner loop over the items of one group,
  \<open>flatten_groups\<close> the outer loop.
\<close>

type_synonym stats_out = "(string \<times> json) list \<times> (string \<times> json) list"

fun flatten_items :: "json list \<Rightarrow> stats_out \<Rightarrow> exn + stats_out" where
  "flatten_items [] out = Inr out"
| "flatten_items (it # its) out =
     (case
        ebind (py_get it ''name'') (\<lambda>n.
        ebind (or_else n (ebind (py_get it ''title'') (\<lambda>t. Inr (py_or t (JStr []))))) (\<lambda>raw_name.
        ebind (py_strip raw_name) (\<lambda>name.
        ebind (py_get it ''home'') (\<lambda>home_v.
        ebind (py_get it ''away'') (\<lambda>away_v.
        Inr (if name \<noteq> []
             then (dict_set (fst out) name home_v, dict_set (snd out) name away_v)
             else out))))))
      of Inl e \<Rightarrow> Inl e
       | Inr out' \<Rightarrow> flatten_items its out')"

fun flatten_groups :: "json list \<Rightarrow> stats_out \<Rightarrow> exn + stats_out" where
  "flatten_groups [] out = Inr out"
| "flatten_groups (g # gs) out =
     (case
        ebind (py_get g ''statisticsItems'') (\<lambda>a.
        ebind (or_else a (ebind (py_get g ''items'') (\<lambda>b. Inr (py_or b (JArr []))))) (\<lambda>items.
        ebind (py_iter items) (\<lambda>its.
        flatten_items its out)))
      of Inl e \<Rightarrow> Inl e
       | Inr out' \<Rightarrow> flatten_groups gs out')"

definition flatten_team_stats :: "json \<Rightarrow> exn + json" where
  "flatten_team_stats stats_payload =
     ebind (py_get stats_payload ''statistics'') (\<lambda>a.
     ebind (or_else a (ebind (py_get stats_payload ''groups'') (\<lambda>b. Inr (py_or b (JArr []))))) (\<lambda>groups.
     ebind (py_iter groups) (\<lambda>gs.
     ebind (flatten_groups gs ([], [])) (\<lambda>out.
     ebind (case stats_payload of
              JObj kvs \<Rightarrow>
                (case map_of kvs ''expectedGoals'' of
                   None \<Rightarrow> Inr out
                 | Some xg \<Rightarrow>
                     ebind (py_get xg ''home'') (\<lambda>h.
                     ebind (py_get xg ''away'') (\<lambda>a.
                     Inr (dict_set (fst out) ''xG'' h, dict_set (snd out) ''xG'' a))))
            | _ \<Rightarrow> Inl TypeError) (\<lambda>out'.
     Inr (JObj [(''home'', JObj (fst out')), (''away'', JObj (snd out'))]))))))"

text \<open>
  \<^verbatim>\<open>lineup_to_players\<close>. \<open>player_entry\<close> is the body of its loop: the dict appended for
  one item \<^verbatim>\<open>pl\<close> of the block's \<^verbatim>\<open>"players"\<close>.
\<close>

definition player_entry :: "json \<Rightarrow> exn + json" where
  "player_entry pl =
     ebind (py_get pl ''player'') (\<lambda>p.
     ebind (Inr (py_or p (JObj []))) (\<lambda>player.
     ebind (py_get pl ''statistics'') (\<lambda>s.
     ebind (Inr (py_or s (JObj []))) (\<lambda>stat.
     ebind (py_get player ''id'') (\<lambda>pid.
     ebind (py_get player ''name'') (\<lambda>pname.
     ebind (py_get player ''slug'') (\<lambda>pslug.
     ebind (py_get pl ''shirtNumber'') (\<lambda>shirt.
     ebind (py_get pl ''position'') (\<lambda>pos.
     ebind (py_get pl ''captain'') (\<lambda>cap.
     ebind (or_else (safe_get pl ''rating.rating'' JNull) (py_get pl ''rating'')) (\<lambda>rating.
     Inr (JObj
       [(''id'', pid),
        (''name'', pname),
        (''slug'', pslug),
        (''shirtNumber'', shirt),
        (''position'', pos),
        (''captain'', cap),
        (''rating'', rating),
        (''statistics'', py_or stat JNull)]))))))))))))"

fun player_entries :: "json list \<Rightarrow> exn + json list" where
  "player_entries [] = Inr []"
| "player_entries (pl # pls) =
     (case player_entry pl of
        Inl e \<Rightarrow> Inl e
      | Inr p \<Rightarrow> (case player_entries pls of Inl e \<Rightarrow> Inl e | Inr ps \<Rightarrow> Inr (p # ps)))"

definition lineup_to_players :: "json \<Rightarrow> exn + json list" where
  "lineup_to_players block =
     (if \<not> truthy block then Inr []
      else
        ebind (py_get_default block ''players'' (JArr [])) (\<lambda>pls.
        ebind (py_iter pls) (\<lambda>items.
        player_entries items)))"

text \<open>
  \<open>team_block\<close> is the dict built for one side under \<^verbatim>\<open>"teams"\<close> in
  \<^verbatim>\<open>build_match_json\<close>, from the side's \<^verbatim>\<open>TeamRef\<close>, its lineup block
  (\<^verbatim>\<open>lu_home\<close> or \<^verbatim>\<open>lu_away\<close>) and its flattened statistics.
\<close>

definition team_block :: "TeamRef \<Rightarrow> json \<Rightarrow> json \<Rightarrow> exn + json" where
  "team_block team lu stats =
     ebind (lineup_to_players (py_or (safe_get lu ''startingLineups'' JNull) (JObj []))) (\<lambda>xi.
     ebind (lineup_to_players (py_or (safe_get lu ''substitutes'' JNull) (JObj []))) (\<lambda>bench.
     Inr (JObj
       [(''id'', team_id team),
        (''name'', team_name team),
        (''slug'', team_slug team),
        (''formation'', safe_get lu ''formation'' JNull),
        (''coach'', safe_get lu ''coach.name'' JNull),
        (''startingXI'', JArr xi),
        (''bench'', JArr bench),
        (''statistics'', stats)])))"

text \<open>
  \<^verbatim>\<open>build_match_json(core, lineups, statistics, incidents)\<close>; an absent optional payload
  is \<^verbatim>\<open>None\<close>, that is \<open>JNull\<close>. The steps follow the source's evaluation order.
\<close>

definition build_match_json :: "json \<Rightarrow> json \<Rightarrow> json \<Rightarrow> json \<Rightarrow> exn + json" where
  "build_match_json core lineups statistics incidents =
     ebind (py_get_default core ''event'' core) (\<lambda>event.
     ebind (py_get_default event ''homeTeam'' (JObj [])) (\<lambda>home_t.
     ebind (extract_team_ref home_t) (\<lambda>home_team.
     ebind (py_get_default event ''awayTeam'' (JObj [])) (\<lambda>away_t.
     ebind (extract_team_ref away_t) (\<lambda>away_team.
     ebind (py_get event ''roundInfo'') (\<lambda>ri.
     ebind (or_else ri (ebind (py_get event ''round'') (\<lambda>r. Inr (py_or r (JObj []))))) (\<lambda>round_info.
     ebind (py_get event ''season'') (\<lambda>se.
     ebind (Inr (py_or se (JObj []))) (\<lambda>season.
     ebind (py_get event ''tournament'') (\<lambda>t.
     ebind (or_else t (ebind (py_get event ''uniqueTournament'') (\<lambda>u. Inr (py_or u (JObj []))))) (\<lambda>tournament.
     ebind (Inr (py_or (safe_get event ''homeScore.current'' JNull)
                       (safe_get event ''homeScore.normaltime'' JNull))) (\<lambda>home_score.
     ebind (Inr (py_or (safe_get event ''awayScore.current'' JNull)
                       (safe_get event ''awayScore.normaltime'' JNull))) (\<lambda>away_score.
     ebind (if truthy statistics then flatten_team_stats statistics
            else Inr (JObj [(''home'', JObj []), (''away'', JObj [])])) (\<lambda>team_stats.
     ebind (Inr (py_or (safe_get (py_or lineups (JObj [])) ''home'' JNull) (JObj []))) (\<lambda>lu_home.
     ebind (Inr (py_or (safe_get (py_or lineups (JObj [])) ''away'' JNull) (JObj []))) (\<lambda>lu_away.
     ebind (py_get event ''id'') (\<lambda>event_id.
     ebind (py_get event ''slug'') (\<lambda>event_slug.
     ebind (py_get event ''startTimestamp'') (\<lambda>start_ts.
     ebind (py_get event ''referee'') (\<lambda>referee.
     ebind (py_get event ''venue'') (\<lambda>venue.
     ebind (py_get round_info ''round'') (\<lambda>round_id.
     ebind (py_get round_info ''name'') (\<lambda>rn.
     ebind (or_else rn (ebind (py_get round_info ''round'') (\<lambda>r. Inr (py_or r JNull)))) (\<lambda>round_name.
     ebind (py_get season ''id'') (\<lambda>season_id.
     ebind (py_get season ''name'') (\<lambda>season_name.
     ebind (py_get season ''year'') (\<lambda>season_year.
     ebind (or_else (safe_get tournament ''uniqueTournament.id'' JNull)
                    (py_get tournament ''id'')) (\<lambda>tournament_id.
     ebind (py_get tournament ''name'') (\<lambda>tn.
     ebind (Inr (py_or tn (safe_get tournament ''uniqueTournament.name'' JNull))) (\<lambda>tournament_name.
     ebind (py_get_default team_stats ''home'' (JObj [])) (\<lambda>stats_home.
     ebind (team_block home_team lu_home stats_home) (\<lambda>teams_home.
     ebind (py_get_default team_stats ''away'' (JObj [])) (\<lambda>stats_away.
     ebind (team_block away_team lu_away stats_away) (\<lambda>teams_away.
     ebind (py_get (py_or incidents (JObj [])) ''incidents'') (\<lambda>inc.
     Inr (JObj
       [(''eventId'', event_id),
        (''slug'', event_slug),
        (''status'', py_or (safe_get event ''status.description'' JNull)
                           (safe_get event ''status.type'' JNull)),
        (''startTimestamp'', start_ts),
        (''referee'', referee),
        (''venue'', venue),
        (''round'', JObj [(''id'', round_id), (''name'', round_name)]),
        (''season'', JObj [(''id'', season_id), (''name'', season_name), (''year'', season_year)]),
        (''tournament'', JObj
           [(''id'', tournament_id),
            (''name'', tournament_name),
            (''category'', safe_get tournament ''category.name'' JNull)]),
        (''score'', JObj
           [(''home'', home_score),
            (''away'', away_score),
            (''penalties'', JObj
               [(''home'', safe_get event ''homeScore.penalties'' JNull),
                (''away'', safe_get event ''awayScore.penalties'' JNull)])]),
        (''teams'', JObj [(''home'', teams_home), (''away'', teams_away)]),
        (''incidents'', py_or inc (py_or incidents (JArr []))),
        (''raw'', JObj
           [(''core'', event),
            (''lineups'', lineups),
            (''statistics'', statistics),
            (''incidents'', incidents)])]
     ))))))))))))))))))))))))))))))))))))"

section \<open>Discovery (scraper/scraper.py)\<close>

text \<open>
  The paths requested from the source API, by the values formatted into them:
  \<^item> \<open>Seasons tid\<close>: \<^verbatim>\<open>/unique-tournament/{tid}/seasons\<close>
  \<^item> \<open>Rounds tid sid\<close>: \<^verbatim>\<open>/unique-tournament/{tid}/season/{sid}/rounds\<close>
  \<^item> \<open>EventsRounds tid sid\<close>: \<^verbatim>\<open>/unique-tournament/{tid}/season/{sid}/events/rounds\<close>
  \<^item> \<open>SeasonEvents tid sid\<close>: \<^verbatim>\<open>/unique-tournament/{tid}/season/{sid}/events\<close>
  \<^item> \<open>SeasonMatches tid sid\<close>: \<^verbatim>\<open>/unique-tournament/{tid}/season/{sid}/matches\<close>
  \<^item> \<open>RoundEvents tid sid rid\<close>: \<^verbatim>\<open>/unique-tournament/{tid}/season/{sid}/round/{rid}/events\<close>
  \<^item> \<open>EventsRound tid sid rid\<close>: \<^verbatim>\<open>/unique-tournament/{tid}/season/{sid}/events/round/{rid}\<close>
\<close>

datatype endpoint =
    Seasons int
  | Rounds int json
  | EventsRounds int json
  | SeasonEvents int json
  | SeasonMatches int json
  | RoundEvents int json json
  | EventsRound int json json

text \<open>The season id formatted into a path, for the paths that have one.\<close>

fun season_of :: "endpoint \<Rightarrow> json option" where
  "season_of (Seasons tid) = None"
| "season_of (Rounds tid sid) = Some sid"
| "season_of (EventsRounds tid sid) = Some sid"
| "season_of (SeasonEvents tid sid) = Some sid"
| "season_of (SeasonMatches tid sid) = Some sid"
| "season_of (RoundEvents tid sid rid) = Some sid"
| "season_of (EventsRound tid sid rid) = Some sid"

text \<open>
  The source API: what the \<open>n\<close>-th request of a run answers for a path, either the decoded
  JSON body or the exception that \<^verbatim>\<open>SofaScoreClient._get\<close> raises
  (\<open>HTTPError\<close> from \<^verbatim>\<open>raise_for_status\<close>, or another one). The state of a run is the
  list of the paths requested so far.
\<close>

type_synonym source_api = "nat \<Rightarrow> endpoint \<Rightarrow> exn + json"

definition http_get :: "source_api \<Rightarrow> endpoint \<Rightarrow> endpoint list \<Rightarrow> (exn + json) \<times> endpoint list" where
  "http_get api path reqs = (api (length reqs) path, reqs @ [path])"

definition TOURNAMENT_ID :: int where
  "TOURNAMENT_ID = 325"

definition get_seasons :: "source_api \<Rightarrow> int \<Rightarrow> endpoint list \<Rightarrow> (exn + json) \<times> endpoint list" where
  "get_seasons api tournament_id reqs =
     (case http_get api (Seasons tournament_id) reqs of
        (r, reqs') \<Rightarrow> (ebind r (\<lambda>data. py_get_default data ''seasons'' (JArr [])), reqs'))"

text \<open>\<^verbatim>\<open>v == year\<close> for an int \<^verbatim>\<open>year\<close>: numbers compare by value, and a bool is a number.\<close>

fun py_eq_int :: "json \<Rightarrow> int \<Rightarrow> bool" where
  "py_eq_int (JInt n) y = (n = y)"
| "py_eq_int (JFloat r) y = (r = of_int y)"
| "py_eq_int (JBool b) y = ((if b then 1 else 0) = y)"
| "py_eq_int v y = False"

text \<open>
  The two loops of \<^verbatim>\<open>get_season_id_by_year\<close>; \<open>None\<close> when a loop ends without returning.
  \<open>str_of\<close> is Python's \<^verbatim>\<open>str\<close> on JSON values.
\<close>

fun season_by_year_field :: "json list \<Rightarrow> int \<Rightarrow> exn + json option" where
  "season_by_year_field [] year = Inr None"
| "season_by_year_field (s # seasons) year =
     ebind (py_get s ''year'') (\<lambda>y.
       if py_eq_int y year then ebind (py_get s ''id'') (\<lambda>i. Inr (Some i))
       else season_by_year_field seasons year)"

fun season_by_name_field :: "(json \<Rightarrow> string) \<Rightarrow> json list \<Rightarrow> int \<Rightarrow> exn + json option" where
  "season_by_name_field str_of [] year = Inr None"
| "season_by_name_field str_of (s # seasons) year =
     ebind (py_get s ''name'') (\<lambda>n.
       if str_of n = str_of (JInt year) then ebind (py_get s ''id'') (\<lambda>i. Inr (Some i))
       else season_by_name_field str_of seasons year)"

definition get_season_id_by_year ::
  "(json \<Rightarrow> string) \<Rightarrow> source_api \<Rightarrow> int \<Rightarrow> int \<Rightarrow> endpoint list \<Rightarrow> (exn + json) \<times> endpoint list" where
  "get_season_id_by_year str_of api tournament_id year reqs =
     (case get_seasons api tournament_id reqs of
        (r, reqs') \<Rightarrow>
          (ebind r (\<lambda>seasons.
           ebind (py_iter seasons) (\<lambda>ss.
           ebind (season_by_year_field ss year) (\<lambda>found.
             case found of
               Some i \<Rightarrow> Inr i
             | None \<Rightarrow>
                 ebind (season_by_name_field str_of ss year) (\<lambda>found'.
                   case found' of Some i \<Rightarrow> Inr i | None \<Rightarrow> Inr JNull)))),
           reqs'))"

text \<open>
  The loop shared by \<^verbatim>\<open>get_rounds\<close>, \<^verbatim>\<open>get_events_by_season\<close> and
  \<^verbatim>\<open>get_events_by_round\<close>: each candidate path is requested in turn; an \<open>HTTPError\<close>
  moves on to the next path, any other exception propagates; the first non-empty
  \<^verbatim>\<open>data.get(k1) or data.get(k2) or []\<close> is returned, and \<^verbatim>\<open>[]\<close> when no path gives one.
\<close>

fun try_paths ::
  "source_api \<Rightarrow> string \<Rightarrow> string \<Rightarrow> endpoint list \<Rightarrow> endpoint list \<Rightarrow> (exn + json) \<times> endpoint list" where
  "try_paths api k1 k2 [] reqs = (Inr (JArr []), reqs)"
| "try_paths api k1 k2 (p # ps) reqs =
     (case http_get api p reqs of
        (Inl e, reqs') \<Rightarrow> (if e = HTTPError then try_paths api k1 k2 ps reqs' else (Inl e, reqs'))
      | (Inr data, reqs') \<Rightarrow>
          (case ebind (py_get data k1) (\<lambda>a.
                or_else a (ebind (py_get data k2) (\<lambda>b. Inr (py_or b (JArr []))))) of
             Inl e \<Rightarrow> (Inl e, reqs')
           | Inr found \<Rightarrow> (if truthy found then (Inr found, reqs') else try_paths api k1 k2 ps reqs')))"

definition get_rounds ::
  "source_api \<Rightarrow> int \<Rightarrow> json \<Rightarrow> endpoint list \<Rightarrow> (exn + json) \<times> endpoint list" where
  "get_rounds api tournament_id season_id reqs =
     try_paths api ''rounds'' ''data''
       [Rounds tournament_id season_id, EventsRounds tournament_id season_id] reqs"

definition get_events_by_season ::
  "source_api \<Rightarrow> int \<Rightarrow> json \<Rightarrow> endpoint list \<Rightarrow> (exn + json) \<times> endpoint list" where
  "get_events_by_season api tournament_id season_id reqs =
     try_paths api ''events'' ''matches''
       [SeasonEvents tournament_id season_id, SeasonMatches tournament_id season_id] reqs"

definition get_events_by_round ::
  "source_api \<Rightarrow> int \<Rightarrow> json \<Rightarrow> json \<Rightarrow> endpoint list \<Rightarrow> (exn + json) \<times> endpoint list" where
  "get_events_by_round api tournament_id season_id round_id reqs =
     try_paths api ''events'' ''matches''
       [RoundEvents tournament_id season_id round_id,
        EventsRound tournament_id season_id round_id] reqs"

text \<open>
  The season id that \<^verbatim>\<open>collect_matches\<close> works with: the assignment
  \<^verbatim>\<open>season_id = 72034\<close>, whatever \<^verbatim>\<open>season_year\<close> is.
\<close>

definition collect_matches_season_id :: "int \<Rightarrow> json" where
  "collect_matches_season_id season_year = JInt 72034"

text \<open>
  The requests of the loop of \<^verbatim>\<open>collect_matches\<close> that fills the events of each round
  (the \<^verbatim>\<open>else\<close> branch). The second component says whether the loop ended without an
  exception. The filtered events themselves are not requests and are left out; the filter
  raises only when the season's events cannot be iterated.
\<close>

fun fill_round_events ::
  "source_api \<Rightarrow> json \<Rightarrow> json list \<Rightarrow> endpoint list \<Rightarrow> (exn + unit) \<times> endpoint list" where
  "fill_round_events api season_id [] reqs = (Inr (), reqs)"
| "fill_round_events api season_id (r # rounds) reqs =
     (case ebind (py_get r ''id'') (\<lambda>a. or_else a (py_get r ''round'')) of
        Inl e \<Rightarrow> (Inl e, reqs)
      | Inr rid \<Rightarrow>
          (case get_events_by_round api TOURNAMENT_ID season_id rid reqs of
             (Inl e, reqs') \<Rightarrow> (Inl e, reqs')
           | (Inr r_events, reqs') \<Rightarrow>
               (if truthy r_events then fill_round_events api season_id rounds reqs'
                else
                  (case get_events_by_season api TOURNAMENT_ID season_id reqs' of
                     (Inl e, reqs2) \<Rightarrow> (Inl e, reqs2)
                   | (Inr all_events, reqs2) \<Rightarrow>
                       (case py_iter all_events of
                          Inl e \<Rightarrow> (Inl e, reqs2)
                        | Inr evs \<Rightarrow> fill_round_events api season_id rounds reqs2)))))"

text \<open>
  The requests that \<^verbatim>\<open>collect_matches\<close> makes to discover the rounds and events of the
  season, from its start to the end of the \<^verbatim>\<open>if not rounds: ... else: ...\<close> statement.
  (The requests that follow are per event, \<^verbatim>\<open>/event/{eid}...\<close>, and carry no season id.)
\<close>

definition collect_matches_discovery :: "source_api \<Rightarrow> int \<Rightarrow> endpoint list" where
  "collect_matches_discovery api season_year =
     (let season_id = collect_matches_season_id season_year in
      if \<not> truthy season_id then []
      else
        (case get_rounds api TOURNAMENT_ID season_id [] of
           (Inl e, reqs) \<Rightarrow> reqs
         | (Inr rounds, reqs) \<Rightarrow>
             (if \<not> truthy rounds then snd (get_events_by_season api TOURNAMENT_ID season_id reqs)
              else
                (case py_iter rounds of
                   Inl e \<Rightarrow> reqs
                 | Inr rs \<Rightarrow> snd (fill_round_events api season_id rs reqs)))))"

section \<open>Chunk Builder (scraper/embedder.py)\<close>

text \<open>
  The dict \<^verbatim>\<open>match_context\<close> handed to \<^verbatim>\<open>_create_player_chunk\<close>: the keys of
  \<^verbatim>\<open>base_context\<close> and the two keys added for the player's side.
\<close>

record match_context =
  ctx_eventId :: json
  ctx_matchDate :: json
  ctx_season :: json
  ctx_round :: json
  ctx_homeTeamName :: json
  ctx_awayTeamName :: json
  ctx_homeScore :: json
  ctx_awayScore :: json
  ctx_sourceFile :: string
  ctx_playerTeamName :: json
  ctx_playerTeamId :: json

text \<open>\<^verbatim>\<open>os.path.basename\<close>: what follows the last slash.\<close>

definition basename :: "string \<Rightarrow> string" where
  "basename path = rev (takeWhile (\<lambda>c. c \<noteq> CHR ''/'') (rev path))"

text \<open>The dict comprehension that drops the keys whose value is \<^verbatim>\<open>None\<close>.\<close>

definition drop_none :: "(string \<times> json) list \<Rightarrow> (string \<times> json) list" where
  "drop_none kvs = filter (\<lambda>kv. snd kv \<noteq> JNull) kvs"

text \<open>
  \<^verbatim>\<open>_create_player_chunk(player_data, match_context)\<close>: the chunk content and its
  metadata. \<open>str_of\<close> is Python's \<^verbatim>\<open>str\<close> on JSON values, used by the f-string of
  \<^verbatim>\<open>finalScore\<close> and by \<^verbatim>\<open>parent_id\<close>.
\<close>

definition create_player_chunk ::
  "(json \<Rightarrow> string) \<Rightarrow> json \<Rightarrow> match_context \<Rightarrow> exn + json \<times> json" where
  "create_player_chunk str_of player_data ctx =
     ebind (py_get_default player_data ''player'' (JObj [])) (\<lambda>player_info.
     ebind (py_get_default player_data ''statistics'' (JObj [])) (\<lambda>player_stats.
     ebind (py_get player_info ''id'') (\<lambda>pid.
     ebind (py_get player_info ''name'') (\<lambda>pname.
     ebind (py_get player_data ''position'') (\<lambda>pos.
     ebind (py_get player_data ''jerseyNumber'') (\<lambda>jersey.
     ebind (py_get_default player_data ''substitute'' (JBool False)) (\<lambda>sub.
     Inr (JObj
            [(''matchInfo'', JObj
               [(''eventId'', ctx_eventId ctx),
                (''matchDate'', ctx_matchDate ctx),
                (''season'', ctx_season ctx),
                (''round'', ctx_round ctx),
                (''homeTeam'', ctx_homeTeamName ctx),
                (''awayTeam'', ctx_awayTeamName ctx),
                (''finalScore'',
                   JStr (str_of (ctx_homeScore ctx) @ '' x '' @ str_of (ctx_awayScore ctx)))]),
             (''playerPerformance'', JObj
               [(''playerId'', pid),
                (''playerName'', pname),
                (''playerTeam'', ctx_playerTeamName ctx),
                (''position'', pos),
                (''jerseyNumber'', jersey),
                (''isSubstitute'', sub),
                (''statistics'', player_stats)])],
          JObj (drop_none
            [(''eventId'', ctx_eventId ctx),
             (''playerId'', pid),
             (''playerName'', pname),
             (''teamId'', ctx_playerTeamId ctx),
             (''teamName'', ctx_playerTeamName ctx),
             (''season'', ctx_season ctx),
             (''round'', ctx_round ctx),
             (''sourceFile'', JStr (basename (ctx_sourceFile ctx))),
             (''parent_id'', JStr (str_of (ctx_eventId ctx)))])))))))))"

text \<open>
  One call \<^verbatim>\<open>self.vector_store.add_document(text=..., metadata=...)\<close>: the chunk content
  (its text is the \<^verbatim>\<open>json.dumps\<close> of the content) and the metadata.
\<close>

record add_call =
  call_content :: json
  call_metadata :: json

text \<open>
  The loop over the players of one side. It returns the calls made, in order, and the
  exception that ended the loop, if any: the calls made before an exception stay made.
\<close>

fun embed_players ::
  "(json \<Rightarrow> string) \<Rightarrow> match_context \<Rightarrow> json list \<Rightarrow> add_call list \<times> exn option" where
  "embed_players str_of ctx [] = ([], None)"
| "embed_players str_of ctx (player_data # rest) =
     (case py_get player_data ''statistics'' of
        Inl e \<Rightarrow> ([], Some e)
      | Inr st \<Rightarrow>
          (if \<not> truthy st then embed_players str_of ctx rest
           else
             (case create_player_chunk str_of player_data ctx of
                Inl e \<Rightarrow> ([], Some e)
              | Inr (content, metadata) \<Rightarrow>
                  (case embed_players str_of ctx rest of
                     (calls, r) \<Rightarrow>
                       (\<lparr>call_content = content, call_metadata = metadata\<rparr> # calls, r)))))"

text \<open>
  One round of the loop over \<^verbatim>\<open>teams_to_process\<close>, for the side \<open>team_type\<close>;
  \<open>player_context\<close> is \<^verbatim>\<open>base_context\<close> with the side's team name and id.
\<close>

definition embed_team ::
  "(json \<Rightarrow> string) \<Rightarrow> match_context \<Rightarrow> json \<Rightarrow> string \<Rightarrow> add_call list \<times> exn option" where
  "embed_team str_of player_context lineups_data team_type =
     (case ebind (py_get_default lineups_data team_type (JObj [])) (\<lambda>side.
           py_get_default side ''players'' (JArr [])) of
        Inl e \<Rightarrow> ([], Some e)
      | Inr players \<Rightarrow>
          (if \<not> truthy players then ([], None)
           else
             (case py_iter players of
                Inl e \<Rightarrow> ([], Some e)
              | Inr pls \<Rightarrow> embed_players str_of player_context pls)))"

text \<open>
  How the processing of one file ends: \<open>Done\<close> when the status line with the chunk count
  is printed, \<open>Skipped\<close> when the file has no \<^verbatim>\<open>raw\<close> structure, \<open>Failed\<close> when an
  exception is caught (\<^verbatim>\<open>Erro Inesperado\<close>), \<open>Undecodable\<close> when the file does not load
  as JSON.
\<close>

datatype file_status = Done | Skipped | Failed exn | Undecodable

text \<open>
  The first part of the loop body of \<^verbatim>\<open>process_and_embed_directory\<close>, from
  \<^verbatim>\<open>core_data = raw_data.get('core', {})\<close> to the end of \<^verbatim>\<open>base_context\<close>: the
  lineups, the context, and the ids of the two teams. \<^verbatim>\<open>team_info.get("id")\<close> (read
  inside the player loop in the source) is read here: \<^verbatim>\<open>team_info\<close> is a dict once
  \<^verbatim>\<open>base_context\<close> is built, so the read cannot raise and its place does not matter.
\<close>

definition base_context_of :: "string \<Rightarrow> json \<Rightarrow> exn + json \<times> match_context \<times> json \<times> json" where
  "base_context_of file_path raw_data =
     ebind (py_get_default raw_data ''core'' (JObj [])) (\<lambda>core_data.
     ebind (py_get_default raw_data ''lineups'' (JObj [])) (\<lambda>lineups_data.
     ebind (py_get_default core_data ''season'' (JObj [])) (\<lambda>season_info.
     ebind (py_get_default core_data ''homeTeam'' (JObj [])) (\<lambda>home_team_info.
     ebind (py_get_default core_data ''awayTeam'' (JObj [])) (\<lambda>away_team_info.
     ebind (py_get_default core_data ''homeScore'' (JObj [])) (\<lambda>home_score_info.
     ebind (py_get_default core_data ''awayScore'' (JObj [])) (\<lambda>away_score_info.
     ebind (py_get core_data ''id'') (\<lambda>event_id.
     ebind (py_get core_data ''startTimestamp'') (\<lambda>start_ts.
     ebind (py_get season_info ''year'') (\<lambda>season_year.
     ebind (py_get_default core_data ''roundInfo'' (JObj [])) (\<lambda>round_info.
     ebind (py_get round_info ''round'') (\<lambda>round_no.
     ebind (py_get home_team_info ''name'') (\<lambda>home_name.
     ebind (py_get away_team_info ''name'') (\<lambda>away_name.
     ebind (py_get home_score_info ''current'') (\<lambda>home_score.
     ebind (py_get away_score_info ''current'') (\<lambda>away_score.
     ebind (py_get home_team_info ''id'') (\<lambda>home_id.
     ebind (py_get away_team_info ''id'') (\<lambda>away_id.
     Inr (lineups_data,
          \<lparr>ctx_eventId = event_id,
           ctx_matchDate = start_ts,
           ctx_season = season_year,
           ctx_round = round_no,
           ctx_homeTeamName = home_name,
           ctx_awayTeamName = away_name,
           ctx_homeScore = home_score,
           ctx_awayScore = away_score,
           ctx_sourceFile = file_path,
           ctx_playerTeamName = JNull,
           ctx_playerTeamId = JNull\<rparr>,
          home_id, away_id)))))))))))))))))))"

text \<open>
  The body of the loop of \<^verbatim>\<open>process_and_embed_directory\<close> for one file that loaded as
  \<open>match_data\<close>: the \<^verbatim>\<open>add_document\<close> calls made, in order, and how the file ends.
\<close>

definition process_file ::
  "(json \<Rightarrow> string) \<Rightarrow> string \<Rightarrow> json \<Rightarrow> add_call list \<times> file_status" where
  "process_file str_of file_path match_data =
     (case py_get_default match_data ''raw'' (JObj []) of
        Inl e \<Rightarrow> ([], Failed e)
      | Inr raw_data \<Rightarrow>
          (if \<not> truthy raw_data then ([], Skipped)
           else
             (case base_context_of file_path raw_data of
                Inl e \<Rightarrow> ([], Failed e)
              | Inr (lineups_data, base_context, home_id, away_id) \<Rightarrow>
                  (case embed_team str_of
                          (base_context\<lparr>ctx_playerTeamName := ctx_homeTeamName base_context,
                                         ctx_playerTeamId := home_id\<rparr>)
                          lineups_data ''home'' of
                     (calls, Some e) \<Rightarrow> (calls, Failed e)
                   | (calls, None) \<Rightarrow>
                       (case embed_team str_of
                               (base_context\<lparr>ctx_playerTeamName := ctx_awayTeamName base_context,
                                              ctx_playerTeamId := away_id\<rparr>)
                               lineups_data ''away'' of
                          (calls', Some e) \<Rightarrow> (calls @ calls', Failed e)
                        | (calls', None) \<Rightarrow> (calls @ calls', Done))))))"

text \<open>
  \<^verbatim>\<open>process_and_embed_directory\<close> over the files found, each with what it loads as
  (\<open>None\<close> when \<^verbatim>\<open>json.load\<close> fails): one result per file, and the batch continues
  after every file.
\<close>

definition process_and_embed_directory ::
  "(json \<Rightarrow> string) \<Rightarrow> (string \<times> json option) list \<Rightarrow> (add_call list \<times> file_status) list" where
  "process_and_embed_directory str_of json_files =
     map (\<lambda>f. case snd f of
                 None \<Rightarrow> ([], Undecodable)
               | Some match_data \<Rightarrow> process_file str_of (fst f) match_data)
         json_files"

section \<open>Vector Store (scraper/pg_vector_store.py)\<close>

text \<open>
  An embedding vector; a float is carried by its exact rational value. A row of the table
  \<^verbatim>\<open>aux.embeddings\<close>, whose primary key is \<open>row_id\<close>.
\<close>

type_synonym vec = "rat list"

record row =
  row_id :: string
  row_text :: string
  row_metadata :: json
  row_embedding :: vec

text \<open>
  What the embedding service answers to \<^verbatim>\<open>embed_content\<close>: an exception, or the list
  \<^verbatim>\<open>response.embeddings\<close> of value vectors (empty also for \<^verbatim>\<open>None\<close>). An embedding
  without values makes \<^verbatim>\<open>len\<close> raise inside \<^verbatim>\<open>embed\<close> and counts as an exception.
\<close>

datatype embed_response = ServiceError | Embeddings "vec list"

text \<open>
  How one storage connection behaves: whether \<^verbatim>\<open>psycopg2.connect\<close> succeeds, and
  whether the statement, the commit and a rollback on it succeed.
\<close>

record conn_plan =
  connect_ok :: bool
  execute_ok :: bool
  commit_ok :: bool
  rollback_ok :: bool

text \<open>
  A \<^verbatim>\<open>float8\<close> of the storage, which is also a Python float: a number (carried by its
  exact rational value), an infinity, or NaN. \<open>pg_key\<close> ranks the values as the storage
  orders and compares them: \<^verbatim>\<open>-Infinity\<close>, the numbers, \<^verbatim>\<open>Infinity\<close>, and NaN above
  them all (and equal to itself); \<open>pg_le a b\<close> is the storage's \<^verbatim>\<open>a <= b\<close>.
\<close>

datatype float8 = Finite rat | PosInf | NegInf | NaN



text \<open>
  The surroundings of the store: the \<open>n\<close>-th identifier that \<^verbatim>\<open>uuid.uuid4()\<close> draws,
  the answer of the embedding service to its \<open>n\<close>-th call, the behaviour of the \<open>n\<close>-th
  storage connection, the \<^verbatim>\<open>float8\<close> that the distance operator \<^verbatim>\<open><=>\<close> computes for two
  vectors of one dimension (NaN when a vector has no length), the \<^verbatim>\<open>float8\<close> nearest to a
  number, and the text that the operator \<^verbatim>\<open>->>\<close> gives for a JSON value that is neither a
  string nor null.
\<close>

record env =
  uuid4 :: "nat \<Rightarrow> string"
  service :: "nat \<Rightarrow> string \<Rightarrow> embed_response"
  db_plan :: "nat \<Rightarrow> conn_plan"
  distance :: "vec \<Rightarrow> vec \<Rightarrow> float8"
  float8_round :: "rat \<Rightarrow> rat"
  as_text :: "json \<Rightarrow> string"

text \<open>The state: the table, and how many identifiers, embedding calls and connections so far.\<close>

record world =
  table :: "row list"
  uuids_drawn :: nat
  embed_calls :: nat
  connections :: nat

text \<open>How a method call ends.\<close>

datatype 'a outcome = Returns 'a | Raises exn

text \<open>
  \<^verbatim>\<open>PgVectorStore.embed\<close>, for the \<open>n\<close>-th call of the service: the 768 values of the first
  embedding, and \<^verbatim>\<open>[]\<close> on an exception, on no embedding and on another dimensionality.
\<close>

definition embed :: "env \<Rightarrow> nat \<Rightarrow> string \<Rightarrow> vec" where
  "embed E n text =
     (case service E n text of
        ServiceError \<Rightarrow> []
      | Embeddings es \<Rightarrow>
          (case es of
             [] \<Rightarrow> []
           | embedding # _ \<Rightarrow> (if length embedding \<noteq> 768 then [] else embedding)))"

text \<open>\<^verbatim>\<open>INSERT ... ON CONFLICT (id) DO UPDATE SET text, metadata, embedding\<close>.\<close>

fun upsert :: "row \<Rightarrow> row list \<Rightarrow> row list" where
  "upsert r [] = [r]"
| "upsert r (x # xs) = (if row_id x = row_id r then r # xs else x # upsert r xs)"

text \<open>
  \<^verbatim>\<open>[text[i:i + m] for i in range(0, len(text), m)]\<close>: windows of \<open>m\<close> characters for a
  positive \<open>m\<close>; \<^verbatim>\<open>range\<close> raises for a zero step and is empty for a negative one.
\<close>

function windows :: "nat \<Rightarrow> string \<Rightarrow> string list" where
  "windows m text = (if m = 0 \<or> text = [] then [] else take m text # windows m (drop m text))"
  by pat_completeness auto
termination
  by (relation "measure (\<lambda>(m, text). length text)") auto

definition split_text :: "string \<Rightarrow> int \<Rightarrow> exn + string list" where
  "split_text text max_chunk_size =
     (if max_chunk_size = 0 then Inl ValueError
      else if max_chunk_size < 0 then Inr []
      else Inr (windows (nat max_chunk_size) text))"

text \<open>
  The loop of \<^verbatim>\<open>add_document\<close> over \<^verbatim>\<open>enumerate(chunks)\<close>, with the inner
  \<^verbatim>\<open>try\<close> statement. \<open>bound\<close> says whether \<^verbatim>\<open>conn\<close> and \<^verbatim>\<open>cur\<close> are bound (to the closed
  connection of an earlier round); \<open>doc_id_list\<close> holds the ids appended so far.
  The loop ends by \<^verbatim>\<open>return []\<close> (a failed embedding, or the \<^verbatim>\<open>except\<close> clause after a
  failed statement or commit), by an exception (\<^verbatim>\<open>dict(metadata)\<close> on a value that is not
  a dict; the \<^verbatim>\<open>except\<close> clause itself when the connection failed: \<^verbatim>\<open>conn.rollback()\<close>
  on an unbound or closed \<^verbatim>\<open>conn\<close>), or normally with the ids of all chunks.
\<close>

fun add_chunks ::
  "env \<Rightarrow> json \<Rightarrow> (nat \<times> string) list \<Rightarrow> bool \<Rightarrow> string list \<Rightarrow> world
     \<Rightarrow> string list outcome \<times> world" where
  "add_chunks E metadata [] bound doc_id_list w = (Returns doc_id_list, w)"
| "add_chunks E metadata ((idx, chunk) # rest) bound doc_id_list w =
     (let chunk_id = uuid4 E (uuids_drawn w);
          w1 = w\<lparr>uuids_drawn := uuids_drawn w + 1\<rparr>
      in case metadata of
           JObj kvs \<Rightarrow>
             (let given = (case map_of kvs ''parent_id'' of Some v \<Rightarrow> v | None \<Rightarrow> JNull);
                  parent = (if truthy given then given else JStr (uuid4 E (uuids_drawn w1)));
                  w2 = (if truthy given then w1 else w1\<lparr>uuids_drawn := uuids_drawn w1 + 1\<rparr>);
                  chunk_metadata =
                    dict_set (dict_set kvs ''chunk_index'' (JInt (int idx))) ''parent_id'' parent;
                  embedding = embed E (embed_calls w2) chunk;
                  w3 = w2\<lparr>embed_calls := embed_calls w2 + 1\<rparr>
              in if embedding = [] then (Returns [], w3)
                 else
                   (let plan = db_plan E (connections w3);
                        w4 = w3\<lparr>connections := connections w3 + 1\<rparr>
                    in if \<not> connect_ok plan then
                         (Raises (if bound then InterfaceError else UnboundLocalError), w4)
                       else if \<not> execute_ok plan \<or> \<not> commit_ok plan then
                         (if rollback_ok plan then (Returns [], w4)
                          else (Raises InterfaceError, w4))
                       else
                         add_chunks E metadata rest True (doc_id_list @ [chunk_id])
                           (w4\<lparr>table :=
                                 upsert \<lparr>row_id = chunk_id, row_text = chunk,
                                         row_metadata = JObj chunk_metadata,
                                         row_embedding = embedding\<rparr> (table w4)\<rparr>)))
         | _ \<Rightarrow> (Raises TypeError, w1))"

text \<open>
  \<^verbatim>\<open>add_document(text, metadata, max_chunk_size)\<close>. The outer \<^verbatim>\<open>except Exception\<close>
  turns every exception into \<^verbatim>\<open>return []\<close>.
\<close>

definition add_document :: "env \<Rightarrow> string \<Rightarrow> json \<Rightarrow> int \<Rightarrow> world \<Rightarrow> string list \<times> world" where
  "add_document E text metadata max_chunk_size w =
     (case split_text text max_chunk_size of
        Inl e \<Rightarrow> ([], w)
      | Inr chunks \<Rightarrow>
          (case add_chunks E metadata (zip [0..<length chunks] chunks) False [] w of
             (Returns ids, w') \<Rightarrow> (ids, w')
           | (Raises e, w') \<Rightarrow> ([], w')))"

text \<open>
  The row that one round of the loop of \<^verbatim>\<open>add_document\<close> upserts for the sub-chunk
  \<open>chunk\<close> of index \<open>idx\<close>, when the metadata is the dict \<open>kvs\<close> and the round starts after
  \<open>u\<close> identifiers and \<open>e\<close> embedding calls; \<open>uuid_step\<close> is the number of identifiers a
  round draws (one for the row, one more for the parent id when none is supplied);
  \<open>earlier_rows\<close> lists the rows of the sub-chunks of index below \<open>j\<close>, in order.
\<close>

definition stored_row :: "env \<Rightarrow> (string \<times> json) list \<Rightarrow> nat \<Rightarrow> nat \<Rightarrow> nat \<Rightarrow> string \<Rightarrow> row" where
  "stored_row E kvs u e idx chunk =
     (let given = (case map_of kvs ''parent_id'' of Some v \<Rightarrow> v | None \<Rightarrow> JNull);
          parent = (if truthy given then given else JStr (uuid4 E (u + 1)))
      in \<lparr>row_id = uuid4 E u,
          row_text = chunk,
          row_metadata =
            JObj (dict_set (dict_set kvs ''chunk_index'' (JInt (int idx))) ''parent_id'' parent),
          row_embedding = embed E e chunk\<rparr>)"

definition uuid_step :: "(string \<times> json) list \<Rightarrow> nat" where
  "uuid_step kvs =
     (if truthy (case map_of kvs ''parent_id'' of Some v \<Rightarrow> v | None \<Rightarrow> JNull) then 1 else 2)"

definition earlier_rows :: "env \<Rightarrow> (string \<times> json) list \<Rightarrow> world \<Rightarrow> string list \<Rightarrow> nat \<Rightarrow> row list" where
  "earlier_rows E kvs w chunks j =
     map (\<lambda>i. stored_row E kvs (uuids_drawn w + uuid_step kvs * i) (embed_calls w + i) i
                (chunks ! i))
         [0..<j]"

text \<open>
  \<^verbatim>\<open>delete_document(doc_id)\<close>, clause by clause: the \<^verbatim>\<open>try\<close> body, the \<^verbatim>\<open>except\<close>
  clause when the body raised, the \<^verbatim>\<open>finally\<close> clause. \<^verbatim>\<open>conn\<close> and \<^verbatim>\<open>cur\<close> are bound
  only when the connection was obtained; using an unbound local raises
  \<open>UnboundLocalError\<close>, and an exception raised in a clause replaces the pending one.
\<close>

definition delete_document :: "env \<Rightarrow> string \<Rightarrow> world \<Rightarrow> unit outcome \<times> world" where
  "delete_document E doc_id w =
     (let plan = db_plan E (connections w);
          w1 = w\<lparr>connections := connections w + 1\<rparr>;
          bound = connect_ok plan;
          body =
            (if \<not> connect_ok plan then Raises OperationalError
             else if \<not> execute_ok plan then Raises OperationalError
             else if \<not> commit_ok plan then Raises OperationalError
             else Returns ());
          w2 = (case body of
                  Returns _ \<Rightarrow> w1\<lparr>table := filter (\<lambda>r. row_id r \<noteq> doc_id) (table w1)\<rparr>
                | Raises _ \<Rightarrow> w1);
          after_except =
            (case body of
               Returns _ \<Rightarrow> Returns ()
             | Raises e \<Rightarrow>
                 (if \<not> bound then Raises UnboundLocalError
                  else if \<not> rollback_ok plan then Raises InterfaceError
                  else Returns ()));
          after_finally = (if \<not> bound then Raises UnboundLocalError else after_except)
      in (after_finally, w2))"












section \<open>Concrete inputs\<close>

text \<open>\<^verbatim>\<open>d[k]\<close> for a dict \<open>d\<close> that has the key \<open>k\<close>; \<open>None\<close> when it has not.\<close>

definition py_item :: "json \<Rightarrow> string \<Rightarrow> json option" where
  "py_item d k = (case d of JObj kvs \<Rightarrow> map_of kvs k | _ \<Rightarrow> None)"

text \<open>A core payload inside the envelope \<^verbatim>\<open>{"event": {...}}\<close>, and the other three payloads.\<close>

definition enveloped_core :: json where
  "enveloped_core = JObj [(''event'', JObj [(''id'', JInt 1)])]"

text \<open>What a canonical match holds under \<^verbatim>\<open>raw.core\<close>.\<close>

definition raw_core :: "json \<Rightarrow> json" where
  "raw_core m = safe_get m ''raw.core'' JNull"

definition sample_lineups :: json where
  "sample_lineups = JObj [(''confirmed'', JBool True)]"

definition sample_statistics :: json where
  "sample_statistics = JObj [(''statistics'', JArr [])]"

definition sample_incidents :: json where
  "sample_incidents = JObj [(''incidents'', JArr [JObj [(''incidentType'', JStr ''goal'')]])]"

text \<open>A match in play: the home side has scored nothing yet, and no normal-time score exists.\<close>

definition live_core :: json where
  "live_core = JObj
     [(''id'', JInt 1),
      (''homeScore'', JObj [(''current'', JInt 0)]),
      (''awayScore'', JObj [(''current'', JInt 2), (''normaltime'', JInt 2)])]"

text \<open>A lineup block with a player who has statistics and one whose statistics are empty.\<close>

definition sample_block :: json where
  "sample_block = JObj [(''players'', JArr
     [JObj [(''player'', JObj [(''id'', JInt 7), (''name'', JStr ''A'')]),
            (''statistics'', JObj [(''goals'', JInt 1)])],
      JObj [(''player'', JObj [(''id'', JInt 8), (''name'', JStr ''B'')]),
            (''statistics'', JObj [])]])]"

text \<open>A lineup block whose only player carries a list where the statistics object belongs.\<close>

definition list_statistics_block :: json where
  "list_statistics_block = JObj [(''players'', JArr [JObj [(''statistics'', JArr [JInt 1])]])]"

text \<open>
  A source API with two seasons, which answers the first shape of the rounds path and of
  the round events path and refuses every other path.
\<close>

definition seasons_payload :: json where
  "seasons_payload = JObj [(''seasons'', JArr
     [JObj [(''id'', JInt 72034), (''year'', JInt 2025), (''name'', JStr ''Serie A 2025'')],
      JObj [(''id'', JInt 58766), (''year'', JInt 2024), (''name'', JStr ''Serie A 2024'')]])]"

definition two_seasons_api :: source_api where
  "two_seasons_api n path =
     (case path of
        Seasons tid \<Rightarrow> Inr seasons_payload
      | Rounds tid sid \<Rightarrow> Inr (JObj [(''rounds'', JArr [JObj [(''round'', JInt 1)]])])
      | RoundEvents tid sid rid \<Rightarrow>
          Inr (JObj [(''events'', JArr
                 [JObj [(''id'', if sid = JInt 58766 then JInt 100 else JInt 200)]])])
      | _ \<Rightarrow> Inl HTTPError)"

text \<open>
  Surroundings of the vector store. Three vectors of 768 values: all 1, all -1, all 0.
  \<open>sample_distance\<close> is the cosine distance on them, as \<^verbatim>\<open><=>\<close> computes it: NaN when a
  vector has no length, 0 between equal vectors and 2 between opposite ones, both exact in
  \<^verbatim>\<open>float8\<close> here (for another pair it gives 1, a value that is not used below). Then a
  storage that works and one that cannot be reached, identifiers, an embedding service that
  always answers with the vector of ones and one whose second call answers with three
  values, and an empty table.
\<close>

definition one_vec :: vec where
  "one_vec = replicate 768 1"



definition sample_distance :: "vec \<Rightarrow> vec \<Rightarrow> float8" where
  "sample_distance a b =
     (if set a \<subseteq> {0} \<or> set b \<subseteq> {0} then NaN
      else if a = b then Finite 0
      else if a = map uminus b then Finite 2
      else Finite 1)"

definition healthy :: conn_plan where
  "healthy = \<lparr>connect_ok = True, execute_ok = True, commit_ok = True, rollback_ok = True\<rparr>"

definition unreachable :: conn_plan where
  "unreachable = \<lparr>connect_ok = False, execute_ok = True, commit_ok = True, rollback_ok = True\<rparr>"

definition sample_uuid :: "nat \<Rightarrow> string" where
  "sample_uuid n = ''uuid-'' @ replicate n CHR ''i''"

definition offline_env :: env where
  "offline_env = \<lparr>uuid4 = sample_uuid, service = (\<lambda>n text. Embeddings [one_vec]),
     db_plan = (\<lambda>n. unreachable), distance = sample_distance, float8_round = (\<lambda>x. x),
     as_text = (\<lambda>v. [])\<rparr>"

definition second_fails_env :: env where
  "second_fails_env = \<lparr>uuid4 = sample_uuid,
     service = (\<lambda>n text. if n = 0 then Embeddings [one_vec] else Embeddings [[1, 2, 3]]),
     db_plan = (\<lambda>n. healthy), distance = sample_distance, float8_round = (\<lambda>x. x),
     as_text = (\<lambda>v. [])\<rparr>"

definition empty_world :: world where
  "empty_world = \<lparr>table = [], uuids_drawn = 0, embed_calls = 0, connections = 0\<rparr>"












section \<open>Properties of the Tree Cleaner\<close>

lemma all_keys_clean_data: "all_keys (clean_data K t) \<subseteq> all_keys t - K"
proof (induction K t rule: clean_data.induct)
  case (1 K kvs)
  show ?case
  proof
    fix k
    assume "k \<in> all_keys (clean_data K (JObj kvs))"
    then consider
        (here) kv where "kv \<in> set kvs" "fst kv \<notin> K" "k = fst kv"
      | (below) kv where "kv \<in> set kvs" "fst kv \<notin> K" "k \<in> all_keys (clean_data K (snd kv))"
      by auto
    then show "k \<in> all_keys (JObj kvs) - K"
    proof cases
      case here
      then show ?thesis by auto
    next
      case below
      with "1.IH" [of kv] have "k \<in> all_keys (snd kv) - K" by auto
      with below show ?thesis by auto
    qed
  qed
next
  case (2 K xs)
  then show ?case by fastforce
qed simp_all

lemma clean_data_scenario_b: "clean_data {''slug''} scenario_b_input = scenario_b_output"
  by (simp add: scenario_b_input_def scenario_b_output_def)

text \<open>
  C5. For every JSON tree and every removal key set \<open>K\<close>, no key of \<open>K\<close> occurs anywhere,
  at any depth, in the output of \<open>clean_data\<close>; and cleaning
  \<^verbatim>\<open>{"teams":{"home":{"slug":"abc","name":"X"}}}\<close> with removal set \<^verbatim>\<open>{"slug"}\<close> yields
  \<^verbatim>\<open>{"teams":{"home":{"name":"X"}}}\<close>.
\<close>

theorem clean_data_removes_keys:
  "all_keys (clean_data K t) \<inter> K = {}
   \<and> clean_data {''slug''} scenario_b_input = scenario_b_output"
  using all_keys_clean_data [of K t] clean_data_scenario_b by auto

text \<open>
  C6. The cleaner is idempotent: cleaning a cleaned tree with the same removal set changes
  nothing.
\<close>

theorem clean_data_idempotent: "clean_data K (clean_data K t) = clean_data K t"
proof (induction K t rule: clean_data.induct)
  case (1 K kvs)
  have "clean_data K (clean_data K (snd kv)) = clean_data K (snd kv)"
    if "kv \<in> set (filter (\<lambda>kv. fst kv \<notin> K) kvs)" for kv
    using that "1.IH" [of kv] by simp
  then show ?case
    by (simp add: filter_map o_def)
next
  case (2 K xs)
  then show ?case by simp
qed simp_all

section \<open>Properties of the Match Normalizer\<close>

lemma ebind_Inr_iff: "ebind m f = Inr y \<longleftrightarrow> (\<exists>x. m = Inr x \<and> f x = Inr y)"
  by (cases m) (simp_all add: ebind_def)

lemma ebindE:
  assumes "ebind m f = Inr y"
  obtains x where "m = Inr x" and "f x = Inr y"
  using assms by (auto simp: ebind_Inr_iff)

lemma ebind_Inr [simp]: "ebind (Inr x) f = f x"
  by (simp add: ebind_def)

lemma ebind_Inl [simp]: "ebind (Inl e) f = Inl e"
  by (simp add: ebind_def)

lemma py_get_Inr_iff:
  "py_get d k = Inr v \<longleftrightarrow>
     (\<exists>kvs. d = JObj kvs \<and> v = (case map_of kvs k of Some x \<Rightarrow> x | None \<Rightarrow> JNull))"
  by (cases d) (auto simp: py_get_def py_get_default_def)

lemmas eval_defs =
  py_get_default_def py_get_def or_else_def py_or_def safe_get_def py_iter_def py_item_def

lemmas build_defs =
  build_match_json_def extract_team_ref_def team_block_def lineup_to_players_def
  flatten_team_stats_def player_entry_def

text \<open>
  C1, as stated, fails: for a core payload inside the \<^verbatim>\<open>"event"\<close> envelope, \<^verbatim>\<open>raw.core\<close>
  is the inner event, not the payload that was passed in.
\<close>

theorem build_match_json_raw_core_counterexample:
  "map_sum id raw_core (build_match_json enveloped_core JNull JNull JNull)
     = Inr (JObj [(''id'', JInt 1)])
   \<and> JObj [(''id'', JInt 1)] \<noteq> enveloped_core"
  by (simp add: enveloped_core_def raw_core_def build_defs eval_defs)

text \<open>
  C1, amended. Whenever \<open>build_match_json\<close> returns a match, its \<^verbatim>\<open>"raw"\<close> entry holds,
  under \<^verbatim>\<open>"core"\<close>, the core payload without its optional envelope (the value of
  \<^verbatim>\<open>core["event"]\<close> when the core dict has that key, the core payload itself otherwise),
  and under \<^verbatim>\<open>"lineups"\<close>, \<^verbatim>\<open>"statistics"\<close> and \<^verbatim>\<open>"incidents"\<close> the three other
  arguments as they were passed in.
\<close>

theorem build_match_json_raw:
  assumes "build_match_json core lineups statistics incidents = Inr m"
  shows "\<exists>kvs. core = JObj kvs \<and>
     py_item m ''raw'' = Some (JObj
       [(''core'', case map_of kvs ''event'' of Some event \<Rightarrow> event | None \<Rightarrow> core),
        (''lineups'', lineups),
        (''statistics'', statistics),
        (''incidents'', incidents)])"
proof -
  from assms obtain event where ev: "py_get_default core ''event'' core = Inr event"
    and m: "py_item m ''raw'' = Some (JObj
       [(''core'', event), (''lineups'', lineups), (''statistics'', statistics),
        (''incidents'', incidents)])"
    unfolding build_match_json_def
    by (elim ebindE) (auto simp: py_item_def)
  from ev obtain kvs where "core = JObj kvs"
    and "event = (case map_of kvs ''event'' of Some event \<Rightarrow> event | None \<Rightarrow> core)"
    by (auto simp: py_get_default_def split: json.splits)
  with m show ?thesis by simp
qed

theorem build_match_json_raw_witness:
  "map_sum id (\<lambda>m. py_item m ''raw'')
     (build_match_json enveloped_core sample_lineups sample_statistics sample_incidents)
   = Inr (Some (JObj
       [(''core'', JObj [(''id'', JInt 1)]),
        (''lineups'', sample_lineups),
        (''statistics'', sample_statistics),
        (''incidents'', sample_incidents)]))"
proof -
  have "\<exists>m. build_match_json enveloped_core sample_lineups sample_statistics sample_incidents
          = Inr m"
    by (simp add: enveloped_core_def sample_lineups_def sample_statistics_def
        sample_incidents_def build_defs eval_defs)
  then obtain m where
    m: "build_match_json enveloped_core sample_lineups sample_statistics sample_incidents = Inr m" ..
  from build_match_json_raw [OF m] have "py_item m ''raw'' = Some (JObj
       [(''core'', JObj [(''id'', JInt 1)]),
        (''lineups'', sample_lineups),
        (''statistics'', sample_statistics),
        (''incidents'', sample_incidents)])"
    by (auto simp: enveloped_core_def)
  with m show ?thesis by simp
qed

text \<open>
  C4. The canonical score is the \<^verbatim>\<open>"current"\<close> score where that field is present. The
  code does not do so for a present score of zero: for the match in play \<open>live_core\<close>, whose
  home \<^verbatim>\<open>"current"\<close> score is 0, \<^verbatim>\<open>score.home\<close> comes out as null.
\<close>

theorem build_match_json_zero_score:
  "safe_get live_core ''homeScore.current'' JNull = JInt 0
   \<and> map_sum id (\<lambda>m. py_item m ''score'') (build_match_json live_core JNull JNull JNull)
       = Inr (Some (JObj [(''home'', JNull), (''away'', JInt 2),
                          (''penalties'', JObj [(''home'', JNull), (''away'', JNull)])]))"
  by (simp add: live_core_def build_defs eval_defs)

lemma safe_get_single:
  "safe_get (JObj kvs) ''statistics'' dflt =
     (case map_of kvs ''statistics'' of Some x \<Rightarrow> x | None \<Rightarrow> dflt)"
  by (simp add: safe_get_def split: option.splits)

lemma player_entry_statistics:
  assumes "player_entry pl = Inr p"
  shows "py_item p ''statistics'' =
           Some (if truthy (safe_get pl ''statistics'' JNull)
                 then safe_get pl ''statistics'' JNull else JNull)"
proof -
  from assms obtain s where s: "py_get pl ''statistics'' = Inr s"
    and p: "py_item p ''statistics'' = Some (py_or (py_or s (JObj [])) JNull)"
    unfolding player_entry_def
    by (elim ebindE) (auto simp: py_item_def)
  from s obtain kvs where "pl = JObj kvs"
    and "s = (case map_of kvs ''statistics'' of Some x \<Rightarrow> x | None \<Rightarrow> JNull)"
    by (auto simp: py_get_Inr_iff)
  then have "safe_get pl ''statistics'' JNull = s"
    by (simp add: safe_get_single)
  with p show ?thesis by (simp add: py_or_def)
qed

lemma player_entries_all2:
  "player_entries items = Inr players \<Longrightarrow>
   list_all2 (\<lambda>pl p. player_entry pl = Inr p) items players"
proof (induction items arbitrary: players)
  case Nil
  then show ?case by simp
next
  case (Cons pl pls)
  then show ?case by (auto split: sum.splits)
qed

lemma lineup_to_players_items:
  assumes "lineup_to_players block = Inr players"
  shows "\<exists>items.
           (if truthy block then ebind (py_get_default block ''players'' (JArr [])) py_iter
            else Inr []) = Inr items
           \<and> player_entries items = Inr players"
  using assms unfolding lineup_to_players_def
  by (auto simp: ebind_Inr_iff split: if_splits)

text \<open>
  C10, as stated, fails: a player whose source statistics is a non-empty list gets that list
  as its statistics field, which is neither null nor a map.
\<close>

theorem lineup_to_players_statistics_counterexample:
  "lineup_to_players list_statistics_block
     = Inr [JObj [(''id'', JNull), (''name'', JNull), (''slug'', JNull), (''shirtNumber'', JNull),
                  (''position'', JNull), (''captain'', JNull), (''rating'', JNull),
                  (''statistics'', JArr [JInt 1])]]"
  by (simp add: list_statistics_block_def lineup_to_players_def player_entry_def eval_defs)

text \<open>
  C10, amended. Every Player entry that \<open>lineup_to_players\<close> returns has a statistics
  field that is either null or a true value (for a map: a non-empty one), never an empty
  map; entry by entry, it is the statistics value of the source entry when that value is
  true, and null when it is absent, null, an empty object or any other false value.
\<close>

theorem lineup_to_players_statistics:
  assumes "lineup_to_players block = Inr players"
  shows "(\<forall>p \<in> set players.
            \<exists>s. py_item p ''statistics'' = Some s \<and> s \<noteq> JObj [] \<and> (s = JNull \<or> truthy s))
    \<and> (\<exists>items.
          (if truthy block then ebind (py_get_default block ''players'' (JArr [])) py_iter
           else Inr []) = Inr items
          \<and> list_all2 (\<lambda>pl p. py_item p ''statistics'' =
                Some (if truthy (safe_get pl ''statistics'' JNull)
                      then safe_get pl ''statistics'' JNull else JNull)) items players)"
proof -
  from lineup_to_players_items [OF assms] obtain items
    where items: "(if truthy block then ebind (py_get_default block ''players'' (JArr [])) py_iter
                   else Inr []) = Inr items"
      and entries: "player_entries items = Inr players"
    by blast
  have all2: "list_all2 (\<lambda>pl p. py_item p ''statistics'' =
                Some (if truthy (safe_get pl ''statistics'' JNull)
                      then safe_get pl ''statistics'' JNull else JNull)) items players"
    using player_entries_all2 [OF entries]
    by (rule list_all2_mono) (rule player_entry_statistics)
  have "\<exists>s. py_item p ''statistics'' = Some s \<and> s \<noteq> JObj [] \<and> (s = JNull \<or> truthy s)"
    if "p \<in> set players" for p
  proof -
    from that all2 obtain pl where "py_item p ''statistics'' =
                Some (if truthy (safe_get pl ''statistics'' JNull)
                      then safe_get pl ''statistics'' JNull else JNull)"
      by (auto simp: in_set_conv_nth list_all2_conv_all_nth)
    then show ?thesis by auto
  qed
  with items all2 show ?thesis by blast
qed

theorem lineup_to_players_statistics_witness:
  "map_sum id (map (\<lambda>p. py_item p ''statistics'')) (lineup_to_players sample_block)
     = Inr [Some (JObj [(''goals'', JInt 1)]), Some JNull]"
proof -
  have "\<exists>players. lineup_to_players sample_block = Inr players"
    by (simp add: sample_block_def lineup_to_players_def player_entry_def eval_defs)
  then obtain players where ps: "lineup_to_players sample_block = Inr players" ..
  from lineup_to_players_statistics [OF ps] obtain items where
     "ebind (py_get_default sample_block ''players'' (JArr [])) py_iter = Inr items"
     and all2: "list_all2 (\<lambda>pl p. py_item p ''statistics'' =
                Some (if truthy (safe_get pl ''statistics'' JNull)
                      then safe_get pl ''statistics'' JNull else JNull)) items players"
    by (auto simp: sample_block_def split: if_splits)
  then have "items =
     [JObj [(''player'', JObj [(''id'', JInt 7), (''name'', JStr ''A'')]),
            (''statistics'', JObj [(''goals'', JInt 1)])],
      JObj [(''player'', JObj [(''id'', JInt 8), (''name'', JStr ''B'')]),
            (''statistics'', JObj [])]]"
    by (simp add: sample_block_def eval_defs)
  with all2 have "map (\<lambda>p. py_item p ''statistics'') players
      = [Some (JObj [(''goals'', JInt 1)]), Some JNull]"
    by (auto simp: list_all2_Cons1 safe_get_def)
  with ps show ?thesis by simp
qed

section \<open>Properties of the Discovery\<close>

lemma try_paths_requests:
  "set (snd (try_paths api k1 k2 ps reqs)) \<subseteq> set reqs \<union> set ps"
proof (induction ps arbitrary: reqs)
  case Nil
  then show ?case by simp
next
  case (Cons p ps)
  have "set (snd (try_paths api k1 k2 ps (reqs @ [p]))) \<subseteq> set reqs \<union> set (p # ps)"
    using Cons.IH [of "reqs @ [p]"] by auto
  then show ?case
    by (auto simp: http_get_def split: sum.splits prod.splits)
qed

lemma fill_round_events_requests:
  "ep \<in> set (snd (fill_round_events api sid rs reqs)) \<Longrightarrow>
   ep \<in> set reqs \<or> season_of ep = Some sid"
proof (induction rs arbitrary: reqs)
  case Nil
  then show ?case by simp
next
  case (Cons r rs)
  show ?case
  proof (cases "ebind (py_get r ''id'') (\<lambda>a. or_else a (py_get r ''round''))")
    case (Inl e)
    with Cons.prems show ?thesis by simp
  next
    case (Inr rid)
    obtain res1 reqs1 where r1: "get_events_by_round api TOURNAMENT_ID sid rid reqs = (res1, reqs1)"
      by (cases "get_events_by_round api TOURNAMENT_ID sid rid reqs")
    have "set reqs1 \<subseteq> set reqs
        \<union> set [RoundEvents TOURNAMENT_ID sid rid, EventsRound TOURNAMENT_ID sid rid]"
      using try_paths_requests [of api "''events''" "''matches''"
          "[RoundEvents TOURNAMENT_ID sid rid, EventsRound TOURNAMENT_ID sid rid]" reqs] r1
      unfolding get_events_by_round_def by (metis snd_conv)
    then have s1: "\<And>x. x \<in> set reqs1 \<Longrightarrow> x \<in> set reqs \<or> season_of x = Some sid"
      by auto
    obtain res2 reqs2 where r2: "get_events_by_season api TOURNAMENT_ID sid reqs1 = (res2, reqs2)"
      by (cases "get_events_by_season api TOURNAMENT_ID sid reqs1")
    have "set reqs2 \<subseteq> set reqs1
        \<union> set [SeasonEvents TOURNAMENT_ID sid, SeasonMatches TOURNAMENT_ID sid]"
      using try_paths_requests [of api "''events''" "''matches''"
          "[SeasonEvents TOURNAMENT_ID sid, SeasonMatches TOURNAMENT_ID sid]" reqs1] r2
      unfolding get_events_by_season_def by (metis snd_conv)
    then have "x = SeasonEvents TOURNAMENT_ID sid \<or> x = SeasonMatches TOURNAMENT_ID sid
        \<or> x \<in> set reqs1" if "x \<in> set reqs2" for x
      using that by auto
    then have s2: "\<And>x. x \<in> set reqs2 \<Longrightarrow> x \<in> set reqs \<or> season_of x = Some sid"
      using s1 by fastforce
    from Cons.prems Inr r1 r2 consider
        "ep \<in> set reqs1" | "ep \<in> set reqs2"
      | "ep \<in> set (snd (fill_round_events api sid rs reqs1))"
      | "ep \<in> set (snd (fill_round_events api sid rs reqs2))"
      by (auto split: sum.splits if_splits)
    then show ?thesis
    proof cases
      case 1
      then show ?thesis using s1 by blast
    next
      case 2
      then show ?thesis using s2 by blast
    next
      case 3
      from Cons.IH [OF this] show ?thesis using s1 by blast
    next
      case 4
      from Cons.IH [OF this] show ?thesis using s2 by blast
    qed
  qed
qed

text \<open>
  Whatever the source API answers and whatever year is requested, every request of the
  discovery carries the season id 72034.
\<close>

lemma collect_matches_discovery_season:
  assumes "ep \<in> set (collect_matches_discovery api season_year)"
  shows "season_of ep = Some (JInt 72034)"
proof -
  let ?sid = "JInt 72034"
  obtain res reqs where r: "get_rounds api TOURNAMENT_ID ?sid [] = (res, reqs)"
    by (cases "get_rounds api TOURNAMENT_ID ?sid []")
  have "set reqs \<subseteq> set []
      \<union> set [Rounds TOURNAMENT_ID ?sid, EventsRounds TOURNAMENT_ID ?sid]"
    using try_paths_requests [of api "''rounds''" "''data''"
        "[Rounds TOURNAMENT_ID ?sid, EventsRounds TOURNAMENT_ID ?sid]" "[]"] r
    unfolding get_rounds_def by (metis snd_conv)
  then have s: "\<And>x. x \<in> set reqs \<Longrightarrow> season_of x = Some ?sid"
    by auto
  obtain res2 reqs2 where r2: "get_events_by_season api TOURNAMENT_ID ?sid reqs = (res2, reqs2)"
    by (cases "get_events_by_season api TOURNAMENT_ID ?sid reqs")
  have "set reqs2 \<subseteq> set reqs
      \<union> set [SeasonEvents TOURNAMENT_ID ?sid, SeasonMatches TOURNAMENT_ID ?sid]"
    using try_paths_requests [of api "''events''" "''matches''"
        "[SeasonEvents TOURNAMENT_ID ?sid, SeasonMatches TOURNAMENT_ID ?sid]" reqs] r2
    unfolding get_events_by_season_def by (metis snd_conv)
  then have "x = SeasonEvents TOURNAMENT_ID ?sid \<or> x = SeasonMatches TOURNAMENT_ID ?sid
      \<or> x \<in> set reqs" if "x \<in> set reqs2" for x
    using that by auto
  then have s2: "\<And>x. x \<in> set reqs2 \<Longrightarrow> season_of x = Some ?sid"
    using s by fastforce
  from assms r r2 consider "ep \<in> set reqs" | "ep \<in> set reqs2"
    | rs where "ep \<in> set (snd (fill_round_events api ?sid rs reqs))"
    by (auto simp: collect_matches_discovery_def collect_matches_season_id_def Let_def
        split: sum.splits if_splits)
  then show ?thesis
  proof cases
    case 1
    then show ?thesis using s by blast
  next
    case 2
    then show ?thesis using s2 by blast
  next
    case 3
    from fill_round_events_requests [OF this] show ?thesis using s by blast
  qed
qed

lemmas discovery_defs =
  get_season_id_by_year_def get_seasons_def http_get_def get_rounds_def get_events_by_round_def
  get_events_by_season_def collect_matches_discovery_def collect_matches_season_id_def
  TOURNAMENT_ID_def

text \<open>
  C2. \<open>collect_matches\<close> should query the season that the requested year resolves to. It
  does not: with a source API that lists season 58766 for 2024 and season 72034 for 2025, a
  run for 2024 (which \<open>get_season_id_by_year\<close> resolves to 58766) queries season 72034,
  and makes the same requests as a run for 2025.
\<close>

theorem collect_matches_ignores_season_year:
  "fst (get_season_id_by_year str_of two_seasons_api TOURNAMENT_ID 2024 []) = Inr (JInt 58766)
   \<and> collect_matches_discovery two_seasons_api 2024
       = [Rounds 325 (JInt 72034), RoundEvents 325 (JInt 72034) (JInt 1)]
   \<and> collect_matches_discovery two_seasons_api 2024 = collect_matches_discovery two_seasons_api 2025"
  by (simp add: two_seasons_api_def seasons_payload_def discovery_defs eval_defs Let_def)

section \<open>Properties of the Vector Store\<close>

lemma length_one_vec [simp]: "length one_vec = 768"
  by (simp add: one_vec_def)

lemma one_vec_not_Nil [simp]: "one_vec \<noteq> []"
  by (simp add: one_vec_def)

text \<open>
  C9. \<open>delete_document\<close> should log every failure and return. When the storage
  connection cannot be obtained it does not: the \<^verbatim>\<open>except\<close> clause and then the
  \<^verbatim>\<open>finally\<close> clause use \<^verbatim>\<open>conn\<close> and \<^verbatim>\<open>cur\<close>, which were never bound, and the call
  ends with \<open>UnboundLocalError\<close>.
\<close>

theorem delete_document_connection_failure:
  "delete_document offline_env ''doc-1'' empty_world
     = (Raises UnboundLocalError, empty_world\<lparr>connections := 1\<rparr>)"
  by (simp add: delete_document_def offline_env_def unreachable_def empty_world_def)

text \<open>The calls of \<open>delete_document\<close> that end with an exception.\<close>

lemma delete_document_raises_iff:
  "(\<exists>e. fst (delete_document E doc_id w) = Raises e) \<longleftrightarrow>
     \<not> connect_ok (db_plan E (connections w))
     \<or> (\<not> execute_ok (db_plan E (connections w)) \<or> \<not> commit_ok (db_plan E (connections w)))
        \<and> \<not> rollback_ok (db_plan E (connections w))"
  by (auto simp: delete_document_def Let_def)

text \<open>
  C3, as stated, fails: the text \<^verbatim>\<open>"ab"\<close> is split into two sub-chunks; the embedding of
  the second has three values, the call returns no id, and the row of the first sub-chunk
  is in the table, which was empty before.
\<close>

theorem add_document_partial_rows_counterexample:
  "embed second_fails_env 1 ''b'' = []
   \<and> fst (add_document second_fails_env ''ab'' (JObj []) 1 empty_world) = []
   \<and> map row_text (table (snd (add_document second_fails_env ''ab'' (JObj []) 1 empty_world))) = [''a'']
   \<and> table empty_world = []"
  by (simp add: add_document_def split_text_def second_fails_env_def empty_world_def embed_def
      healthy_def Let_def upt_conv_Cons)

text \<open>\<open>embed\<close> gives \<^verbatim>\<open>[]\<close> exactly for a failed, empty or wrongly sized answer.\<close>

lemma embed_empty_iff:
  "embed E n text = [] \<longleftrightarrow>
     service E n text = ServiceError
     \<or> (\<exists>es. service E n text = Embeddings es \<and> (es = [] \<or> length (hd es) \<noteq> 768))"
  by (auto simp: embed_def split: embed_response.splits list.splits)

lemma set_upsert: "set (upsert r rows) \<subseteq> insert r (set rows)"
  by (induction rows) auto

lemma add_chunks_step:
  "(table (snd (add_chunks E metadata ((idx, chunk) # ics) bound doc_id_list w)) = table w
      \<and> (\<forall>ids. fst (add_chunks E metadata ((idx, chunk) # ics) bound doc_id_list w) = Returns ids
            \<longrightarrow> ids = []))
   \<or> (embed E (embed_calls w) chunk \<noteq> []
      \<and> (\<exists>w' ids r.
            add_chunks E metadata ((idx, chunk) # ics) bound doc_id_list w
              = add_chunks E metadata ics True ids w'
            \<and> embed_calls w' = embed_calls w + 1
            \<and> table w' = upsert r (table w)
            \<and> row_text r = chunk))"
proof (cases metadata)
  case (JObj kvs)
  show ?thesis
  proof (cases "truthy (case map_of kvs ''parent_id'' of Some v \<Rightarrow> v | None \<Rightarrow> JNull)")
    case True
    with JObj show ?thesis
      by (simp add: Let_def) force
  next
    case False
    with JObj show ?thesis
      by (simp add: Let_def) force
  qed
qed (simp_all add: Let_def)

lemma add_chunks_embedding_failure:
  assumes "j < length ics" and "embed E (embed_calls w + j) (snd (ics ! j)) = []"
  shows "(\<forall>ids. fst (add_chunks E metadata ics bound doc_id_list w) = Returns ids \<longrightarrow> ids = [])
    \<and> (\<forall>r \<in> set (table (snd (add_chunks E metadata ics bound doc_id_list w))).
          r \<in> set (table w) \<or> (\<exists>i<j. row_text r = snd (ics ! i)))
    \<and> (j = 0 \<longrightarrow> table (snd (add_chunks E metadata ics bound doc_id_list w)) = table w)"
  using assms
proof (induction ics arbitrary: j bound doc_id_list w)
  case Nil
  then show ?case by simp
next
  case (Cons ic ics)
  obtain idx chunk where ic: "ic = (idx, chunk)" by (cases ic)
  let ?res = "add_chunks E metadata (ic # ics) bound doc_id_list w"
  from add_chunks_step [of E metadata idx chunk ics bound doc_id_list w] ic
  consider (stop) "table (snd ?res) = table w"
      "\<forall>ids. fst ?res = Returns ids \<longrightarrow> ids = []"
    | (go) w' ids r where "embed E (embed_calls w) chunk \<noteq> []"
      "?res = add_chunks E metadata ics True ids w'"
      "embed_calls w' = embed_calls w + 1" "table w' = upsert r (table w)" "row_text r = chunk"
    by blast
  then show ?case
  proof cases
    case stop
    then show ?thesis by simp
  next
    case go
    from go(1) Cons.prems ic obtain j' where j: "j = Suc j'"
      by (cases j) auto
    with Cons.prems go(3) have "j' < length ics"
      and "embed E (embed_calls w' + j') (snd (ics ! j')) = []"
      by simp_all
    from Cons.IH [OF this, of True ids]
    have ids: "\<forall>ids'. fst ?res = Returns ids' \<longrightarrow> ids' = []"
      and rows: "\<forall>r' \<in> set (table (snd ?res)).
            r' \<in> set (table w') \<or> (\<exists>i<j'. row_text r' = snd (ics ! i))"
      using go(2) by simp_all
    have "r' \<in> set (table w) \<or> (\<exists>i<j. row_text r' = snd ((ic # ics) ! i))"
      if "r' \<in> set (table (snd ?res))" for r'
    proof -
      from rows that consider "r' \<in> set (table w')" | i where "i < j'" "row_text r' = snd (ics ! i)"
        by blast
      then show ?thesis
      proof cases
        case 1
        with go(4) set_upsert [of r "table w"] have "r' = r \<or> r' \<in> set (table w)" by auto
        with go(5) ic j show ?thesis by auto
      next
        case 2
        then have "Suc i < j" "row_text r' = snd ((ic # ics) ! Suc i)" using j by simp_all
        then show ?thesis by blast
      qed
    qed
    with ids j show ?thesis by simp
  qed
qed


lemma upsert_fresh: "row_id r \<notin> row_id ` set t \<Longrightarrow> upsert r t = t @ [r]"
  by (induction t) auto

lemma foldl_upsert_fresh:
  "distinct (map row_id rs) \<Longrightarrow> row_id ` set rs \<inter> row_id ` set t = {} \<Longrightarrow>
   foldl (\<lambda>t r. upsert r t) t rs = t @ rs"
proof (induction rs arbitrary: t)
  case Nil
  then show ?case by simp
next
  case (Cons r rs)
  from Cons.prems have fresh: "row_id r \<notin> row_id ` set t" by auto
  from Cons.prems have "distinct (map row_id rs)"
    and "row_id ` set rs \<inter> row_id ` set (t @ [r]) = {}"
    by auto
  from Cons.IH [OF this] fresh show ?case
    by (simp add: upsert_fresh)
qed

lemma add_chunks_success_step:
  assumes "embed E (embed_calls w) chunk \<noteq> []"
    and "connect_ok (db_plan E (connections w))"
    and "execute_ok (db_plan E (connections w))"
    and "commit_ok (db_plan E (connections w))"
  shows "\<exists>w' ids'.
           add_chunks E (JObj kvs) ((idx, chunk) # rest) bound ids w
             = add_chunks E (JObj kvs) rest True ids' w'
           \<and> uuids_drawn w' = uuids_drawn w + uuid_step kvs
           \<and> embed_calls w' = embed_calls w + 1
           \<and> connections w' = connections w + 1
           \<and> table w' = upsert (stored_row E kvs (uuids_drawn w) (embed_calls w) idx chunk) (table w)"
proof (cases "truthy (case map_of kvs ''parent_id'' of Some v \<Rightarrow> v | None \<Rightarrow> JNull)")
  case True
  with assms show ?thesis
    by (simp add: Let_def stored_row_def uuid_step_def) force
next
  case False
  with assms show ?thesis
    by (simp add: Let_def stored_row_def uuid_step_def) force
qed

lemma add_chunks_fail_step:
  assumes "embed E (embed_calls w) chunk = []"
  shows "table (snd (add_chunks E (JObj kvs) ((idx, chunk) # rest) bound ids w)) = table w"
  using assms by (simp add: Let_def)

lemma add_chunks_reached:
  assumes "j < length cs"
    and "embed E (embed_calls w + j) (cs ! j) = []"
    and "\<forall>i<j. embed E (embed_calls w + i) (cs ! i) \<noteq> []
            \<and> connect_ok (db_plan E (connections w + i))
            \<and> execute_ok (db_plan E (connections w + i))
            \<and> commit_ok (db_plan E (connections w + i))"
  shows "table (snd (add_chunks E (JObj kvs) (zip [n..<n + length cs] cs) bound ids w))
     = foldl (\<lambda>t r. upsert r t) (table w)
         (map (\<lambda>i. stored_row E kvs (uuids_drawn w + uuid_step kvs * i) (embed_calls w + i)
                     (n + i) (cs ! i)) [0..<j])"
  using assms
proof (induction cs arbitrary: j n w bound ids)
  case Nil
  then show ?case by simp
next
  case (Cons c cs)
  have "[n..<n + length (c # cs)] = n # [Suc n..<Suc n + length cs]"
    using upt_conv_Cons [of n "n + length (c # cs)"] by simp
  then have zip: "zip [n..<n + length (c # cs)] (c # cs) = (n, c) # zip [Suc n..<Suc n + length cs] cs"
    by (simp del: upt_Suc)
  show ?case
  proof (cases j)
    case 0
    with Cons.prems(2) have "embed E (embed_calls w) c = []" by simp
    from add_chunks_fail_step [OF this] 0 zip show ?thesis by simp
  next
    case (Suc j')
    from Cons.prems(3) Suc have head: "embed E (embed_calls w) c \<noteq> []"
      "connect_ok (db_plan E (connections w))" "execute_ok (db_plan E (connections w))"
      "commit_ok (db_plan E (connections w))"
      by force+
    from add_chunks_success_step [OF head, of kvs n "zip [Suc n..<Suc n + length cs] cs" bound ids]
    obtain w' ids' where
      step: "add_chunks E (JObj kvs) ((n, c) # zip [Suc n..<Suc n + length cs] cs) bound ids w
               = add_chunks E (JObj kvs) (zip [Suc n..<Suc n + length cs] cs) True ids' w'"
      and u: "uuids_drawn w' = uuids_drawn w + uuid_step kvs"
      and e: "embed_calls w' = embed_calls w + 1"
      and cn: "connections w' = connections w + 1"
      and t: "table w' = upsert (stored_row E kvs (uuids_drawn w) (embed_calls w) n c) (table w)"
      by blast
    from Cons.prems(1) Suc have j': "j' < length cs" by simp
    from Cons.prems(2) Suc e have fail: "embed E (embed_calls w' + j') (cs ! j') = []" by simp
    have ok: "\<forall>i<j'. embed E (embed_calls w' + i) (cs ! i) \<noteq> []
            \<and> connect_ok (db_plan E (connections w' + i))
            \<and> execute_ok (db_plan E (connections w' + i))
            \<and> commit_ok (db_plan E (connections w' + i))"
    proof (intro allI impI)
      fix i assume "i < j'"
      with Suc have "Suc i < j" by simp
      with Cons.prems(3) have "embed E (embed_calls w + Suc i) ((c # cs) ! Suc i) \<noteq> []
            \<and> connect_ok (db_plan E (connections w + Suc i))
            \<and> execute_ok (db_plan E (connections w + Suc i))
            \<and> commit_ok (db_plan E (connections w + Suc i))"
        by blast
      with e cn show "embed E (embed_calls w' + i) (cs ! i) \<noteq> []
            \<and> connect_ok (db_plan E (connections w' + i))
            \<and> execute_ok (db_plan E (connections w' + i))
            \<and> commit_ok (db_plan E (connections w' + i))"
        by simp
    qed
    from Cons.IH [OF j' fail ok, of "Suc n" True ids'] step zip u e t Suc
    show ?thesis
      by (simp add: map_upt_Suc add.assoc del: upt_Suc add_chunks.simps)
  qed
qed

text \<open>
  C3, amended. When the embedding of the sub-chunk of index \<open>j\<close> comes back empty or of
  another dimensionality than 768, \<open>add_document\<close> returns an empty id list and writes no
  row for that sub-chunk or a later one: every row of the table afterwards was there before
  or holds the text of a sub-chunk of smaller index, and no row is written when the first
  sub-chunk is the one that fails. When the call gets as far as that sub-chunk (the
  metadata is a dict, and every earlier sub-chunk was embedded, stored and committed), the
  rows of exactly the earlier sub-chunks have been upserted, in order, and stay in storage:
  with identifiers that are distinct and new to the table, the table afterwards is the
  table before followed by those rows.
\<close>

theorem add_document_embedding_failure:
  assumes "split_text text max_chunk_size = Inr chunks"
    and "j < length chunks"
    and "embed E (embed_calls w + j) (chunks ! j) = []"
  shows "fst (add_document E text metadata max_chunk_size w) = []
    \<and> (\<forall>r \<in> set (table (snd (add_document E text metadata max_chunk_size w))).
          r \<in> set (table w) \<or> (\<exists>i<j. row_text r = chunks ! i))
    \<and> (j = 0 \<longrightarrow> table (snd (add_document E text metadata max_chunk_size w)) = table w)
    \<and> (\<forall>kvs. metadata = JObj kvs
          \<and> (\<forall>i<j. embed E (embed_calls w + i) (chunks ! i) \<noteq> []
                \<and> connect_ok (db_plan E (connections w + i))
                \<and> execute_ok (db_plan E (connections w + i))
                \<and> commit_ok (db_plan E (connections w + i)))
          \<longrightarrow> table (snd (add_document E text metadata max_chunk_size w))
                = foldl (\<lambda>t r. upsert r t) (table w) (earlier_rows E kvs w chunks j)
              \<and> (distinct (map row_id (earlier_rows E kvs w chunks j))
                  \<and> row_id ` set (earlier_rows E kvs w chunks j) \<inter> row_id ` set (table w) = {}
                 \<longrightarrow> table (snd (add_document E text metadata max_chunk_size w))
                       = table w @ earlier_rows E kvs w chunks j))"
proof -
  let ?ics = "zip [0..<length chunks] chunks"
  let ?res = "add_chunks E metadata ?ics False [] w"
  have len: "j < length ?ics" using assms(2) by simp
  have nth: "snd (?ics ! i) = chunks ! i" if "i < length chunks" for i
    using that by simp
  from assms(3) nth [OF assms(2)] have "embed E (embed_calls w + j) (snd (?ics ! j)) = []"
    by simp
  from add_chunks_embedding_failure [OF len this, of metadata False "[]"]
  have ids: "\<forall>ids. fst ?res = Returns ids \<longrightarrow> ids = []"
    and rows: "\<forall>r \<in> set (table (snd ?res)).
          r \<in> set (table w) \<or> (\<exists>i<j. row_text r = snd (?ics ! i))"
    and first: "j = 0 \<longrightarrow> table (snd ?res) = table w"
    by blast+
  have rows': "\<forall>r \<in> set (table (snd ?res)). r \<in> set (table w) \<or> (\<exists>i<j. row_text r = chunks ! i)"
  proof
    fix r assume "r \<in> set (table (snd ?res))"
    with rows consider "r \<in> set (table w)" | i where "i < j" "row_text r = snd (?ics ! i)"
      by blast
    then show "r \<in> set (table w) \<or> (\<exists>i<j. row_text r = chunks ! i)"
    proof cases
      case 1
      then show ?thesis ..
    next
      case 2
      with assms(2) nth [of i] have "row_text r = chunks ! i" by simp
      with 2 show ?thesis by blast
    qed
  qed
  have tab: "table (snd (add_document E text metadata max_chunk_size w)) = table (snd ?res)"
    using assms(1) by (simp add: add_document_def split: prod.splits outcome.splits)
  have out: "fst (add_document E text metadata max_chunk_size w) = []"
  proof (cases ?res)
    case (Pair out w')
    with ids assms(1) show ?thesis
      by (cases out) (simp_all add: add_document_def)
  qed
  have exact: "table (snd ?res) = foldl (\<lambda>t r. upsert r t) (table w) (earlier_rows E kvs w chunks j)"
    if "metadata = JObj kvs"
      and "\<forall>i<j. embed E (embed_calls w + i) (chunks ! i) \<noteq> []
                \<and> connect_ok (db_plan E (connections w + i))
                \<and> execute_ok (db_plan E (connections w + i))
                \<and> commit_ok (db_plan E (connections w + i))" for kvs
    using add_chunks_reached [OF assms(2) assms(3) that(2), of kvs 0 False "[]"] that(1)
    by (simp add: earlier_rows_def)
  from out rows' first exact tab show ?thesis
    by (auto simp: foldl_upsert_fresh)
qed

theorem add_document_embedding_failure_witness:
  "fst (add_document second_fails_env ''ab'' (JObj []) 1 empty_world) = []
   \<and> table (snd (add_document second_fails_env ''ab'' (JObj []) 1 empty_world))
       = [\<lparr>row_id = sample_uuid 0, row_text = ''a'',
           row_metadata = JObj [(''chunk_index'', JInt 0), (''parent_id'', JStr (sample_uuid 1))],
           row_embedding = one_vec\<rparr>]"
proof -
  have split: "split_text ''ab'' 1 = Inr [''a'', ''b'']"
    by (simp add: split_text_def)
  have j: "(1::nat) < length [''a'', ''b'']" by simp
  have fails: "embed second_fails_env (embed_calls empty_world + 1) ([''a'', ''b''] ! 1) = []"
    by (simp add: second_fails_env_def empty_world_def embed_def)
  have reached: "\<forall>i<1. embed second_fails_env (embed_calls empty_world + i) ([''a'', ''b''] ! i) \<noteq> []
      \<and> connect_ok (db_plan second_fails_env (connections empty_world + i))
      \<and> execute_ok (db_plan second_fails_env (connections empty_world + i))
      \<and> commit_ok (db_plan second_fails_env (connections empty_world + i))"
    by (simp add: second_fails_env_def empty_world_def embed_def healthy_def)
  have rows: "earlier_rows second_fails_env [] empty_world [''a'', ''b''] 1
      = [\<lparr>row_id = sample_uuid 0, row_text = ''a'',
           row_metadata = JObj [(''chunk_index'', JInt 0), (''parent_id'', JStr (sample_uuid 1))],
           row_embedding = one_vec\<rparr>]"
    by (simp add: earlier_rows_def stored_row_def uuid_step_def second_fails_env_def
        empty_world_def embed_def)
  have fresh: "distinct (map row_id (earlier_rows second_fails_env [] empty_world [''a'', ''b''] 1))
      \<and> row_id ` set (earlier_rows second_fails_env [] empty_world [''a'', ''b''] 1)
          \<inter> row_id ` set (table empty_world) = {}"
    unfolding rows by (simp add: empty_world_def)
  from add_document_embedding_failure [OF split j fails, of "JObj []"] reached fresh
  have "fst (add_document second_fails_env ''ab'' (JObj []) 1 empty_world) = []"
    and "table (snd (add_document second_fails_env ''ab'' (JObj []) 1 empty_world))
       = table empty_world @ earlier_rows second_fails_env [] empty_world [''a'', ''b''] 1"
    by blast+
  with rows show ?thesis by (simp add: empty_world_def)
qed
















section \<open>Properties of the Chunk Builder\<close>



lemma embed_players_strings:
  "embed_players str_of ctx (map JStr (k # ks)) = ([], Some AttributeError)"
  by (simp add: py_get_def py_get_default_def)









end
